theory Spec2Isabelle
  imports Complex_Main "HOL-Library.Multiset" "HOL-Library.Sublist" "HOL-Library.AList"
begin

section \<open>JavaScript numbers\<close>

text \<open>
  A JavaScript \<open>number\<close> is modelled as an exact real number or one of the three special
  values. Rounding of doubles and the sign of zero are not modelled: \<open>Finite 0\<close> stands
  for \<open>+0\<close>, the only zero the program divides by (a length, or a product of positive
  factors).
\<close>

datatype number = Finite real | Infinity | NegInfinity | NaN



fun js_div :: "number \<Rightarrow> number \<Rightarrow> number" where
  "js_div (Finite a) (Finite b) =
     (if b = 0 then (if a = 0 then NaN else if 0 < a then Infinity else NegInfinity)
      else Finite (a / b))"
| "js_div NaN _ = NaN"
| "js_div _ NaN = NaN"
| "js_div Infinity (Finite b) = (if 0 \<le> b then Infinity else NegInfinity)"
| "js_div NegInfinity (Finite b) = (if 0 \<le> b then NegInfinity else Infinity)"
| "js_div (Finite a) Infinity = Finite 0"
| "js_div (Finite a) NegInfinity = Finite 0"
| "js_div Infinity Infinity = NaN"
| "js_div Infinity NegInfinity = NaN"
| "js_div NegInfinity Infinity = NaN"
| "js_div NegInfinity NegInfinity = NaN"

text \<open>The decimal digits of a natural number, most significant first.\<close>

fun decimal :: "nat \<Rightarrow> string" where
  "decimal n = (if n < 10 then [''0123456789'' ! n]
                else decimal (n div 10) @ [''0123456789'' ! (n mod 10)])"

declare decimal.simps [simp del]



section \<open>Dates\<close>

text \<open>
  A \<open>Date\<close> is its time value, the milliseconds since 1970-01-01T00:00:00Z. The
  calendar functions follow the definitions of the language standard (\<open>Day\<close>,
  \<open>DayFromYear\<close>, \<open>YearFromTime\<close>, \<open>MonthFromTime\<close>, \<open>DateFromTime\<close>,
  \<open>MakeDay\<close>). The local time zone is taken to be UTC, so that the local accessors
  \<open>getDate\<close>, \<open>getMonth\<close> and \<open>setDate\<close> read the same calendar as the parser of
  the date-only string \<open>2022-01-01\<close>.
\<close>

type_synonym Date = int

definition msPerDay :: int where
  "msPerDay = 86400000"

definition Day :: "Date \<Rightarrow> int" where
  "Day t = t div msPerDay"

definition TimeWithinDay :: "Date \<Rightarrow> int" where
  "TimeWithinDay t = t mod msPerDay"

definition DaysInYear :: "int \<Rightarrow> int" where
  "DaysInYear y =
     (if y mod 4 \<noteq> 0 then 365
      else if y mod 100 \<noteq> 0 then 366
      else if y mod 400 \<noteq> 0 then 365
      else 366)"

definition DayFromYear :: "int \<Rightarrow> int" where
  "DayFromYear y =
     365 * (y - 1970) + (y - 1969) div 4 - (y - 1901) div 100 + (y - 1601) div 400"

text \<open>
  The standard defines \<open>YearFromTime t\<close> as the largest year that starts at or before
  \<open>t\<close>. The mean year has 146097 / 400 days, which gives an estimate that is off by at
  most one year; the neighbours of the estimate are tried in turn.
\<close>

definition YearFromTime :: "Date \<Rightarrow> int" where
  "YearFromTime t =
     (let d = Day t; y = 1970 + (400 * d) div 146097
      in if DayFromYear (y + 1) \<le> d then y + 1
         else if DayFromYear y \<le> d then y
         else y - 1)"

definition InLeapYear :: "Date \<Rightarrow> int" where
  "InLeapYear t = (if DaysInYear (YearFromTime t) = 366 then 1 else 0)"

definition DayWithinYear :: "Date \<Rightarrow> int" where
  "DayWithinYear t = Day t - DayFromYear (YearFromTime t)"

definition MonthFromTime :: "Date \<Rightarrow> int" where
  "MonthFromTime t =
     (let d = DayWithinYear t; l = InLeapYear t
      in if d < 31 then 0
         else if d < 59 + l then 1
         else if d < 90 + l then 2
         else if d < 120 + l then 3
         else if d < 151 + l then 4
         else if d < 181 + l then 5
         else if d < 212 + l then 6
         else if d < 243 + l then 7
         else if d < 273 + l then 8
         else if d < 304 + l then 9
         else if d < 334 + l then 10
         else 11)"

text \<open>The day of the year on which month \<open>m\<close> (0 to 11) starts.\<close>

definition monthStart :: "int \<Rightarrow> int \<Rightarrow> int" where
  "monthStart m l =
     (if m = 0 then 0
      else if m = 1 then 31
      else [59, 90, 120, 151, 181, 212, 243, 273, 304, 334] ! nat (m - 2) + l)"

definition DateFromTime :: "Date \<Rightarrow> int" where
  "DateFromTime t = DayWithinYear t - monthStart (MonthFromTime t) (InLeapYear t) + 1"

definition MakeDay :: "int \<Rightarrow> int \<Rightarrow> int \<Rightarrow> int" where
  "MakeDay year m dt =
     (let ym = year + m div 12; mn = m mod 12
      in DayFromYear ym + monthStart mn (if DaysInYear ym = 366 then 1 else 0) + dt - 1)"

definition getTime :: "Date \<Rightarrow> int" where
  "getTime t = t"

definition getDate :: "Date \<Rightarrow> int" where
  "getDate t = DateFromTime t"

definition getMonth :: "Date \<Rightarrow> int" where
  "getMonth t = MonthFromTime t"

definition setDate :: "Date \<Rightarrow> int \<Rightarrow> Date" where
  "setDate t dt = MakeDay (YearFromTime t) (MonthFromTime t) dt * msPerDay + TimeWithinDay t"

text \<open>A number in decimal, padded with zeros on the left to at least \<open>w\<close> digits.\<close>

definition padStart :: "nat \<Rightarrow> nat \<Rightarrow> string" where
  "padStart w n = replicate (w - length (decimal n)) (CHR ''0'') @ decimal n"

text \<open>
  \<open>date.toISOString().split('T')[0]\<close>: the calendar date as \<open>YYYY-MM-DD\<close>. The
  expanded form for years outside 0 to 9999 is not modelled.
\<close>

definition isoDate :: "Date \<Rightarrow> string" where
  "isoDate t =
     padStart 4 (nat (YearFromTime t)) @ ''-'' @ padStart 2 (nat (MonthFromTime t + 1))
       @ ''-'' @ padStart 2 (nat (DateFromTime t))"


section \<open>The data points and their generator\<close>

record DataPoint =
  date :: string
  timestamp :: int
  month :: int
  season :: string
  redBCc :: real
  ecFTIR :: real
  fabs :: real
  mac :: number

text \<open>\<open>new Date('2022-01-01')\<close>: midnight UTC of that day, day 18993 of the epoch.\<close>

definition startDate :: Date where
  "startDate = 1640995200000"

definition sampleSize :: int where
  "sampleSize = 103"

definition seasons :: "string list" where
  "seasons = [''Dry Season'', ''Belg Rainy Season'', ''Kiremt Rainy Season'']"

text \<open>The object literal \<open>seasonMonths\<close>, as its entries in insertion order.\<close>

definition seasonMonths :: "(string \<times> int list) list" where
  "seasonMonths =
     [(''Dry Season'', [10, 11, 12, 1, 2]),
      (''Belg Rainy Season'', [3, 4, 5]),
      (''Kiremt Rainy Season'', [6, 7, 8, 9])]"

text \<open>
  The inner loop that determines the season: the first entry whose months include the
  month, and the empty string when the loop ends without a \<open>break\<close>.
\<close>

fun determineSeason :: "(string \<times> int list) list \<Rightarrow> int \<Rightarrow> string" where
  "determineSeason [] m = ''''"
| "determineSeason ((s, months) # entries) m =
     (if m \<in> set months then s else determineSeason entries m)"

text \<open>
  The body of the generation loop for index \<open>i\<close>. Its four calls of \<open>Math.random()\<close>
  return, in the order of the calls, \<open>r0\<close> (base value), \<open>r1\<close> (redBCc), \<open>r2\<close>
  (ecFTIR) and \<open>r3\<close> (fabs).
\<close>

definition dataPoint :: "int \<Rightarrow> real \<Rightarrow> real \<Rightarrow> real \<Rightarrow> real \<Rightarrow> DataPoint" where
  "dataPoint i r0 r1 r2 r3 =
     (let d = setDate startDate (getDate startDate + i * 3);
          month = getMonth d + 1;
          season = determineSeason seasonMonths month;
          baseValue = 2 + r0 * 8;
          seasonalFactor = 1;
          seasonalFactor = (if season = ''Dry Season'' then 1.2 else seasonalFactor);
          seasonalFactor = (if season = ''Belg Rainy Season'' then 0.8 else seasonalFactor);
          redBCc = baseValue * seasonalFactor * (1 + (r1 - 0.5) * 0.3);
          ecFTIR = baseValue * 0.9 * (1 + (r2 - 0.5) * 0.4);
          fabs = baseValue * 5 * (1 + (r3 - 0.5) * 0.5);
          mac = js_div (Finite fabs) (Finite ecFTIR)
      in \<lparr> date = isoDate d, timestamp = getTime d, month = month, season = season,
           redBCc = redBCc, ecFTIR = ecFTIR, fabs = fabs, mac = mac \<rparr>)"

text \<open>
  The generation loop. The source of randomness is a sequence \<open>U\<close> of draws and the
  number \<open>k\<close> of draws already made; the loop runs while \<open>i < n\<close> and pushes one data
  point per round.
\<close>

function generateLoop ::
  "(nat \<Rightarrow> real) \<Rightarrow> int \<Rightarrow> int \<Rightarrow> nat \<Rightarrow> DataPoint list \<Rightarrow> DataPoint list" where
  "generateLoop U n i k sampleData =
     (if i < n
      then generateLoop U n (i + 1) (k + 4)
             (sampleData @ [dataPoint i (U k) (U (k + 1)) (U (k + 2)) (U (k + 3))])
      else sampleData)"
  by pat_completeness auto
termination
  by (relation "measure (\<lambda>(U, n, i, k, sampleData). nat (n - i))") auto

declare generateLoop.simps [simp del]

text \<open>
  The generator with the loop bound as an argument, and the generator of the source,
  whose bound is the constant 103.
\<close>

definition generate :: "int \<Rightarrow> (nat \<Rightarrow> real) \<Rightarrow> DataPoint list" where
  "generate n U = generateLoop U n 0 0 []"

definition generateSampleData :: "(nat \<Rightarrow> real) \<Rightarrow> DataPoint list" where
  "generateSampleData U = generate sampleSize U"


section \<open>Filtering, sorting and statistics\<close>

definition filteredData :: "DataPoint list \<Rightarrow> string \<Rightarrow> DataPoint list" where
  "filteredData data seasonFilter =
     filter (\<lambda>item. seasonFilter = ''all'' \<or> season item = seasonFilter) data"

text \<open>
  \<open>Array.prototype.sort\<close> with a comparison function. The standard leaves the algorithm
  open and requires a stable sort; the model is the insertion sort that moves an element
  past those it compares greater than.
\<close>

fun insertBy :: "('a \<Rightarrow> 'a \<Rightarrow> int) \<Rightarrow> 'a \<Rightarrow> 'a list \<Rightarrow> 'a list" where
  "insertBy cmp x [] = [x]"
| "insertBy cmp x (y # ys) = (if 0 < cmp x y then y # insertBy cmp x ys else x # y # ys)"

fun sortBy :: "('a \<Rightarrow> 'a \<Rightarrow> int) \<Rightarrow> 'a list \<Rightarrow> 'a list" where
  "sortBy cmp [] = []"
| "sortBy cmp (x # xs) = insertBy cmp x (sortBy cmp xs)"

text \<open>\<open>sortedData\<close> of \<open>renderTimeSeriesPlot\<close>.\<close>

definition sortedData :: "DataPoint list \<Rightarrow> DataPoint list" where
  "sortedData fd = sortBy (\<lambda>a b. timestamp a - timestamp b) fd"















section \<open>Sample inputs\<close>

text \<open>A data point with a given season, time stamp and ratio, for concrete inputs.\<close>

definition point :: "string \<Rightarrow> int \<Rightarrow> number \<Rightarrow> DataPoint" where
  "point s t m =
     \<lparr> date = [], timestamp = t, month = 1, season = s,
       redBCc = 1, ecFTIR = 1, fabs = 1, mac = m \<rparr>"


section \<open>The calendar of the generated dates\<close>






lemma MonthFromTime_range: "0 \<le> MonthFromTime t \<and> MonthFromTime t \<le> 11"
  by (simp add: MonthFromTime_def Let_def)


section \<open>The season table\<close>

lemma month_cases:
  fixes m :: int
  assumes "1 \<le> m" "m \<le> 12"
  shows "m = 1 \<or> m = 2 \<or> m = 3 \<or> m = 4 \<or> m = 5 \<or> m = 6 \<or> m = 7 \<or> m = 8
      \<or> m = 9 \<or> m = 10 \<or> m = 11 \<or> m = 12"
  using assms by presburger

lemma determineSeason_in_seasons:
  assumes "1 \<le> m" "m \<le> 12"
  shows "determineSeason seasonMonths m \<in> set seasons"
  using month_cases[OF assms] by (auto simp: seasonMonths_def seasons_def)

lemma determineSeason_member:
  "determineSeason entries m \<noteq> [] \<Longrightarrow>
     \<exists>ms. (determineSeason entries m, ms) \<in> set entries \<and> m \<in> set ms"
  by (induction entries m rule: determineSeason.induct) (auto split: if_splits)


section \<open>The fields of a generated data point\<close>


lemma dataPoint_month: "month (dataPoint i r0 r1 r2 r3) \<in> {1..12}"
  using MonthFromTime_range[of "setDate startDate (getDate startDate + i * 3)"]
  by (simp add: dataPoint_def Let_def getMonth_def)

lemma dataPoint_season:
  "season (dataPoint i r0 r1 r2 r3) =
     determineSeason seasonMonths (month (dataPoint i r0 r1 r2 r3))"
  by (simp add: dataPoint_def Let_def)

lemma dataPoint_ecFTIR:
  "ecFTIR (dataPoint i r0 r1 r2 r3) = (2 + r0 * 8) * 0.9 * (1 + (r2 - 0.5) * 0.4)"
  by (simp add: dataPoint_def Let_def)


lemma dataPoint_mac:
  "mac (dataPoint i r0 r1 r2 r3) =
     js_div (Finite (fabs (dataPoint i r0 r1 r2 r3))) (Finite (ecFTIR (dataPoint i r0 r1 r2 r3)))"
  by (simp add: dataPoint_def Let_def)

lemma ecFTIR_pos:
  fixes r0 r2 :: real
  assumes "0 \<le> r0" "0 \<le> r2"
  shows "0 < (2 + r0 * 8) * 0.9 * (1 + (r2 - 0.5) * 0.4)"
proof -
  have "0 < 2 + r0 * 8" using assms by linarith
  moreover have "0 < 1 + (r2 - 0.5) * 0.4" using assms by argo
  ultimately show ?thesis by (intro mult_pos_pos) simp_all
qed





section \<open>The generation loop as a list of data points\<close>

lemma generateLoop_eq:
  "generateLoop U n i k acc =
     acc @ map (\<lambda>j. dataPoint (i + int j) (U (k + 4 * j)) (U (k + 4 * j + 1))
                       (U (k + 4 * j + 2)) (U (k + 4 * j + 3))) [0..<nat (n - i)]"
proof (induction U n i k acc rule: generateLoop.induct)
  case (1 U n i k acc)
  show ?case
  proof (cases "i < n")
    case True
    then have n: "nat (n - i) = Suc (nat (n - (i + 1)))" by simp
    have sh: "map (\<lambda>j. dataPoint (i + int j) (U (k + 4 * j)) (U (k + 4 * j + 1))
                       (U (k + 4 * j + 2)) (U (k + 4 * j + 3))) [0..<Suc (nat (n - (i + 1)))]
            = dataPoint i (U k) (U (k + 1)) (U (k + 2)) (U (k + 3)) #
              map (\<lambda>j. dataPoint (i + 1 + int j) (U (k + 4 + 4 * j)) (U (k + 4 + 4 * j + 1))
                       (U (k + 4 + 4 * j + 2)) (U (k + 4 + 4 * j + 3))) [0..<nat (n - (i + 1))]"
      unfolding upt_conv_Cons[OF zero_less_Suc] map_Suc_upt[symmetric]
      by (simp add: algebra_simps)
    show ?thesis
      using 1[OF True] True
      by (subst generateLoop.simps) (simp only: n sh if_True append_assoc append_Cons append_Nil)
  next
    case False
    then show ?thesis by (subst generateLoop.simps) simp
  qed
qed

lemma generate_eq:
  "generate n U =
     map (\<lambda>j. dataPoint (int j) (U (4 * j)) (U (4 * j + 1)) (U (4 * j + 2)) (U (4 * j + 3)))
       [0..<nat n]"
  by (simp add: generate_def generateLoop_eq)

lemma length_generateSampleData: "length (generateSampleData U) = 103"
  by (simp add: generateSampleData_def sampleSize_def generate_eq)



section \<open>The sort\<close>

lemma mset_insertBy: "mset (insertBy cmp x xs) = add_mset x (mset xs)"
  by (induction xs) auto

lemma mset_sortBy: "mset (sortBy cmp xs) = mset xs"
  by (induction xs) (auto simp: mset_insertBy)

lemma set_insertBy: "set (insertBy cmp x xs) = insert x (set xs)"
  by (induction xs) auto

lemma sorted_insertBy_key:
  "sorted (map f xs) \<Longrightarrow> sorted (map f (insertBy (\<lambda>a b. f a - f b) x xs))"
  for f :: "'a \<Rightarrow> int"
  by (induction xs) (auto simp: set_insertBy)

lemma sorted_sortBy_key: "sorted (map f (sortBy (\<lambda>a b. f a - f b) xs))"
  for f :: "'a \<Rightarrow> int"
  by (induction xs) (auto simp: sorted_insertBy_key)

lemma filter_insertBy_key:
  "filter (\<lambda>y. f y = k) (insertBy (\<lambda>a b. f a - f b) x xs) =
     (if f x = k then x # filter (\<lambda>y. f y = k) xs else filter (\<lambda>y. f y = k) xs)"
  for f :: "'a \<Rightarrow> int"
  by (induction xs) auto

lemma filter_sortBy_key:
  "filter (\<lambda>y. f y = k) (sortBy (\<lambda>a b. f a - f b) xs) = filter (\<lambda>y. f y = k) xs"
  for f :: "'a \<Rightarrow> int"
  by (induction xs) (auto simp: filter_insertBy_key)




section \<open>The season of a generated data point\<close>

lemma determineSeason_entry:
  "(s, ms) \<in> set seasonMonths \<Longrightarrow> m \<in> set ms \<Longrightarrow> determineSeason seasonMonths m = s"
  unfolding seasonMonths_def
  by (elim disjE | simp)+

lemma seasonMonths_unique:
  fixes m :: int
  assumes "1 \<le> m" "m \<le> 12"
  shows "\<exists>!s. \<exists>ms. (s, ms) \<in> set seasonMonths \<and> m \<in> set ms"
proof (rule ex1I[of _ "determineSeason seasonMonths m"])
  have "determineSeason seasonMonths m \<noteq> []"
    using determineSeason_in_seasons[OF assms] by (auto simp: seasons_def)
  then show "\<exists>ms. (determineSeason seasonMonths m, ms) \<in> set seasonMonths \<and> m \<in> set ms"
    by (rule determineSeason_member)
next
  fix s assume "\<exists>ms. (s, ms) \<in> set seasonMonths \<and> m \<in> set ms"
  then show "s = determineSeason seasonMonths m"
    using determineSeason_entry by blast
qed

lemma seasonMonths_union: "(\<Union>p \<in> set seasonMonths. set (snd p)) = {1..12}"
proof
  show "(\<Union>p \<in> set seasonMonths. set (snd p)) \<subseteq> {1..12}"
    by (auto simp: seasonMonths_def)
  show "{1..12} \<subseteq> (\<Union>p \<in> set seasonMonths. set (snd p))"
  proof
    fix m :: int assume "m \<in> {1..12}"
    then have "1 \<le> m" "m \<le> 12" by simp_all
    from month_cases[OF this] show "m \<in> (\<Union>p \<in> set seasonMonths. set (snd p))"
      by (auto simp: seasonMonths_def)
  qed
qed

lemma generated_season:
  assumes "r \<in> set (generateSampleData U)"
  shows "season r \<in> set seasons \<and> (\<exists>ms. (season r, ms) \<in> set seasonMonths \<and> month r \<in> set ms)"
proof -
  from assms obtain j where
    r: "r = dataPoint (int j) (U (4 * j)) (U (4 * j + 1)) (U (4 * j + 2)) (U (4 * j + 3))"
    by (auto simp: generateSampleData_def generate_eq)
  have m: "1 \<le> month r" "month r \<le> 12" using dataPoint_month[of "int j"] unfolding r by simp_all
  have s: "season r = determineSeason seasonMonths (month r)" unfolding r by (rule dataPoint_season)
  have in_s: "season r \<in> set seasons" unfolding s by (rule determineSeason_in_seasons[OF m])
  then have "season r \<noteq> []" by (auto simp: seasons_def)
  then have "\<exists>ms. (season r, ms) \<in> set seasonMonths \<and> month r \<in> set ms"
    unfolding s by (rule determineSeason_member)
  with in_s show ?thesis by simp
qed


section \<open>The order of the generated time stamps\<close>




section \<open>Sums, means and the seasonal entries\<close>










section \<open>Claims about the generator\<close>

text \<open>
  C2. For every sequence of draws in \<open>[0, 1)\<close>, every generated data point has a strictly
  positive \<open>ecFTIR\<close>, so that \<open>mac\<close> is the finite quotient \<open>fabs / ecFTIR\<close>: the
  branches of the division for a zero divisor are not reached.
\<close>

theorem generated_ecFTIR_positive:
  assumes "\<forall>k. 0 \<le> U k \<and> U k < 1"
  shows "\<forall>r \<in> set (generateSampleData U).
           0 < ecFTIR r \<and> mac r = Finite (fabs r / ecFTIR r)"
proof
  fix r assume "r \<in> set (generateSampleData U)"
  then obtain j where
    r: "r = dataPoint (int j) (U (4 * j)) (U (4 * j + 1)) (U (4 * j + 2)) (U (4 * j + 3))"
    by (auto simp: generateSampleData_def generate_eq)
  have u: "0 \<le> U (4 * j)" "0 \<le> U (4 * j + 2)" using assms by simp_all
  have pos: "0 < ecFTIR r"
    unfolding r dataPoint_ecFTIR by (rule ecFTIR_pos[OF u])
  then have "mac r = Finite (fabs r / ecFTIR r)"
    unfolding r by (simp only: dataPoint_mac js_div.simps) simp
  with pos show "0 < ecFTIR r \<and> mac r = Finite (fabs r / ecFTIR r)" by simp
qed

theorem generated_ecFTIR_positive_witness:
  "(0::real) \<le> 1 / 2 \<and> (1::real) / 2 < 1 \<and>
   0 < ecFTIR (generateSampleData (\<lambda>k. 1 / 2) ! 0) \<and>
   mac (generateSampleData (\<lambda>k. 1 / 2) ! 0) =
     Finite (fabs (generateSampleData (\<lambda>k. 1 / 2) ! 0) / ecFTIR (generateSampleData (\<lambda>k. 1 / 2) ! 0))"
proof -
  have "generateSampleData (\<lambda>k. 1 / 2) ! 0 \<in> set (generateSampleData (\<lambda>k. 1 / 2))"
    by (rule nth_mem) (simp add: length_generateSampleData)
  then show ?thesis
    using generated_ecFTIR_positive[of "\<lambda>k. 1 / 2"] by simp
qed

text \<open>
  C8. For every loop bound \<open>sampleSize \<le> 0\<close> the generation loop makes no round and the
  generator returns the empty sequence. The generator is a total function: no bound
  makes it fail.
\<close>

theorem generate_nonpositive: "n \<le> 0 \<Longrightarrow> generate n U = []"
  by (simp add: generate_def generateLoop.simps)

theorem generate_nonpositive_witness:
  "generate (- 5) (\<lambda>k. 1 / 2) = [] \<and> generate 0 (\<lambda>k. 1 / 2) = []"
  using generate_nonpositive[of "- 5" "\<lambda>k. 1 / 2"] generate_nonpositive[of 0 "\<lambda>k. 1 / 2"]
  by simp

text \<open>
  C3. The season table partitions the months 1 to 12: every month is listed by exactly
  one season, the listed months are exactly 1 to 12, none is listed twice, and the
  seasons of the table are the three seasons of the component. Hence every generated
  data point has a season that is not empty, namely the season that lists its month.
\<close>

theorem seasonMonths_partition:
  "(\<forall>m \<in> {1..12}. \<exists>!s. \<exists>ms. (s, ms) \<in> set seasonMonths \<and> m \<in> set ms) \<and>
   (\<Union>p \<in> set seasonMonths. set (snd p)) = {1..12} \<and>
   distinct (concat (map snd seasonMonths)) \<and>
   map fst seasonMonths = seasons \<and>
   (\<forall>r \<in> set (generateSampleData U).
      season r \<noteq> [] \<and> season r \<in> set seasons \<and>
      (\<exists>ms. (season r, ms) \<in> set seasonMonths \<and> month r \<in> set ms))"
proof (intro conjI ballI)
  fix m :: int assume "m \<in> {1..12}"
  then show "\<exists>!s. \<exists>ms. (s, ms) \<in> set seasonMonths \<and> m \<in> set ms"
    by (intro seasonMonths_unique) simp_all
next
  show "(\<Union>p \<in> set seasonMonths. set (snd p)) = {1..12}" by (rule seasonMonths_union)
next
  show "distinct (concat (map snd seasonMonths))" by (simp add: seasonMonths_def)
next
  show "map fst seasonMonths = seasons" by (simp add: seasonMonths_def seasons_def)
next
  fix r assume r: "r \<in> set (generateSampleData U)"
  from generated_season[OF r] show "season r \<in> set seasons" by simp
  then show "season r \<noteq> []" by (auto simp: seasons_def)
  from generated_season[OF r]
  show "\<exists>ms. (season r, ms) \<in> set seasonMonths \<and> month r \<in> set ms" by simp
qed

theorem seasonMonths_partition_witness:
  "(7::int) \<in> {1..12} \<and>
   (\<exists>ms. (''Kiremt Rainy Season'', ms) \<in> set seasonMonths \<and> (7::int) \<in> set ms) \<and>
   season (generateSampleData (\<lambda>k. 1 / 2) ! 0) \<noteq> []"
proof -
  have "generateSampleData (\<lambda>k. 1 / 2) ! 0 \<in> set (generateSampleData (\<lambda>k. 1 / 2))"
    by (rule nth_mem) (simp add: length_generateSampleData)
  then have "season (generateSampleData (\<lambda>k. 1 / 2) ! 0) \<noteq> []"
    using seasonMonths_partition[of "\<lambda>k. 1 / 2"] by blast
  then show ?thesis by (simp add: seasonMonths_def)
qed




section \<open>Claims about filtering and sorting\<close>

text \<open>
  C4. Filtering by \<open>all\<close> returns the records unchanged; filtering by a season \<open>S\<close>
  returns exactly the records whose season is \<open>S\<close>, in their order, as a subsequence
  of the input.
\<close>

theorem filteredData_contract:
  "filteredData records ''all'' = records \<and>
   (\<forall>S \<in> set seasons.
      filteredData records S = filter (\<lambda>r. season r = S) records \<and>
      subseq (filteredData records S) records)"
  by (auto simp: filteredData_def seasons_def)

theorem filteredData_contract_witness:
  "''Dry Season'' \<in> set seasons \<and>
   filteredData [point ''Dry Season'' 2 (Finite 5), point ''Belg Rainy Season'' 1 (Finite 6),
                 point ''Dry Season'' 0 (Finite 7)] ''Dry Season''
     = [point ''Dry Season'' 2 (Finite 5), point ''Dry Season'' 0 (Finite 7)]"
  using filteredData_contract
    [of "[point ''Dry Season'' 2 (Finite 5), point ''Belg Rainy Season'' 1 (Finite 6),
          point ''Dry Season'' 0 (Finite 7)]"]
  by (simp add: seasons_def point_def)

text \<open>
  C6. Sorting by time stamp is a stable ascending sort: the result is a permutation of
  the records, its time stamps do not decrease, and the records of any one time stamp
  keep their order.
\<close>

theorem sortedData_stable_sort:
  "mset (sortedData records) = mset records \<and>
   sorted (map timestamp (sortedData records)) \<and>
   (\<forall>t. filter (\<lambda>r. timestamp r = t) (sortedData records) =
        filter (\<lambda>r. timestamp r = t) records)"
  by (simp add: sortedData_def mset_sortBy sorted_sortBy_key filter_sortBy_key)




section \<open>Claims about the statistics\<close>








end
